theory Spec2Isabelle
  imports Main
begin

section \<open>Data model\<close>

text \<open>
  \<^verbatim>\<open>frontend/src/types/Message.ts\<close>: the enum \<^verbatim>\<open>Sender\<close> has the string values
  \<^verbatim>\<open>'user'\<close> and \<^verbatim>\<open>'ai'\<close>; a \<^verbatim>\<open>Message\<close> has a text, a sender and an optional
  boolean \<^verbatim>\<open>needsMoreInfo\<close> (\<open>None\<close> when the property is not set).
\<close>

datatype Sender = USER | AI

fun Sender_value :: "Sender \<Rightarrow> string" where
  "Sender_value USER = ''user''"
| "Sender_value AI = ''ai''"

record Message =
  msgtext :: string
  sender :: Sender
  needsMoreInfo :: "bool option"

text \<open>
  Values that go on the wire are JSON documents. An object is the list of its
  properties in insertion order, as \<^verbatim>\<open>JSON.stringify\<close> writes them.
\<close>

datatype json =
    JNull
  | JBool bool
  | JNumber int
  | JString string
  | JArray "json list"
  | JObject "(string \<times> json) list"

text \<open>
  The plan shown by the \<^verbatim>\<open>BrowserUsePlan\<close> component (\<^verbatim>\<open>BrowserUsePlanProps\<close>):
  an ordered list of function calls, with an optional explanation and an optional
  copy of the action description.
\<close>

record BrowserUseFunction =
  name :: string
  args :: "(string \<times> json) list"
  description :: "string option"

record Plan =
  plan_functions :: "BrowserUseFunction list"
  explanation :: "string option"
  action_description :: "string option"

text \<open>
  The state cells of the \<^verbatim>\<open>useChatbot\<close> hook: \<^verbatim>\<open>messages\<close> (the conversation log),
  \<^verbatim>\<open>currMessage\<close> (the draft shown while a reply streams in) and \<^verbatim>\<open>isGenerating\<close>
  (the busy flag). The WebSocket variant of the hook adds \<^verbatim>\<open>browserUsePlan\<close>.
\<close>

record chatbot =
  messages :: "Message list"
  currMessage :: Message
  isGenerating :: bool

record ws_chatbot = chatbot +
  browserUsePlan :: "Plan option"

definition DEFAULT_MESSAGE :: Message where
  "DEFAULT_MESSAGE = \<lparr>msgtext = '''', sender = AI, needsMoreInfo = None\<rparr>"

definition useChatbot_initial :: chatbot where
  "useChatbot_initial = \<lparr>messages = [], currMessage = DEFAULT_MESSAGE, isGenerating = False\<rparr>"

definition useChatbot_ws_initial :: ws_chatbot where
  "useChatbot_ws_initial =
     \<lparr>messages = [], currMessage = DEFAULT_MESSAGE, isGenerating = False, browserUsePlan = None\<rparr>"

text \<open>The two object literals that the hooks append: \<^verbatim>\<open>{ text: t, sender: s }\<close>.\<close>

definition message_of :: "string \<Rightarrow> Sender \<Rightarrow> Message" where
  "message_of t s = \<lparr>msgtext = t, sender = s, needsMoreInfo = None\<rparr>"

definition NO_RESPONSE :: string where
  "NO_RESPONSE = ''Error: No response from server''"

text \<open>\<^verbatim>\<open>setMessages(prev => [...prev, m])\<close>\<close>

definition append_message :: "Message \<Rightarrow> ('a chatbot_scheme) \<Rightarrow> ('a chatbot_scheme)" where
  "append_message m st = st\<lparr>messages := messages st @ [m]\<rparr>"

text \<open>
  What the environment gives back to an awaited \<^verbatim>\<open>fetch\<close>: the promise is still
  pending, it rejected, it resolved to a response without a body, or it resolved
  to a response whose body is \<open>'b\<close>.
\<close>

datatype 'b fetch = Pending | Rejected | BodyNull | Body 'b

text \<open>
  An outbound request or frame. The path of a \<open>Fetch\<close> is relative to
  \<^verbatim>\<open>API_BASE_URL\<close>; the second component is the value given to \<^verbatim>\<open>JSON.stringify\<close>.
\<close>

datatype callback = ConnectWebSocket

datatype effect =
    Fetch string json
  | SocketSend json
  | SocketClose
  | NewWebSocket
  | SetTimeout callback nat

section \<open>The streaming hook (\<^verbatim>\<open>frontend/src/hooks/useChatbot.ts\<close>)\<close>

text \<open>
  What successive \<^verbatim>\<open>await reader.read()\<close> calls give: a chunk (here already
  decoded by \<^verbatim>\<open>decoder.decode\<close>), the end of the stream, or a rejection. A list
  of such events that ends without \<open>Done\<close> or \<open>ReadError\<close> is a stream that is
  still being read.
\<close>

datatype read_event = Value string | Done | ReadError

datatype loop_exit = Awaiting | Break | Thrown

text \<open>
  \<^verbatim>\<open>setCurrMessage(prev => ({ sender: prev.sender, text: prev.text + decodedValue }))\<close>
\<close>

definition append_draft :: "string \<Rightarrow> ('a chatbot_scheme) \<Rightarrow> ('a chatbot_scheme)" where
  "append_draft decodedValue st =
     st\<lparr>currMessage := \<lparr>msgtext = msgtext (currMessage st) @ decodedValue,
                          sender = sender (currMessage st),
                          needsMoreInfo = None\<rparr>\<rparr>"

text \<open>The \<^verbatim>\<open>while (true)\<close> loop over the reader, with the accumulator \<^verbatim>\<open>aiMessage\<close>.\<close>

fun read_loop :: "chatbot \<Rightarrow> string \<Rightarrow> read_event list \<Rightarrow> chatbot \<times> string \<times> loop_exit" where
  "read_loop st aiMessage [] = (st, aiMessage, Awaiting)"
| "read_loop st aiMessage (Done # _) = (st, aiMessage, Break)"
| "read_loop st aiMessage (ReadError # _) = (st, aiMessage, Thrown)"
| "read_loop st aiMessage (Value decodedValue # rest) =
     read_loop (append_draft decodedValue st) (aiMessage @ decodedValue) rest"

text \<open>The \<^verbatim>\<open>catch\<close> and \<^verbatim>\<open>finally\<close> blocks of \<^verbatim>\<open>sendMessage\<close>.\<close>

definition catch_block :: "('a chatbot_scheme) \<Rightarrow> ('a chatbot_scheme)" where
  "catch_block st = append_message (message_of NO_RESPONSE AI) st"

definition finally_block :: "('a chatbot_scheme) \<Rightarrow> ('a chatbot_scheme)" where
  "finally_block st = st\<lparr>isGenerating := False\<rparr>"

text \<open>The request that the streaming hook posts to \<^verbatim>\<open>API_BASE_URL\<close> itself.\<close>

definition stream_request :: "string \<Rightarrow> effect" where
  "stream_request message = Fetch '''' (JObject [(''query'', JString message)])"

text \<open>
  \<^verbatim>\<open>sendMessage\<close> of the streaming hook, run on what the environment has delivered
  so far. The result is the state of the hook at that point and what the call
  has sent.
\<close>

definition sendMessage_stream ::
  "chatbot \<Rightarrow> string \<Rightarrow> read_event list fetch \<Rightarrow> chatbot \<times> effect list" where
  "sendMessage_stream st message res =
     (let st1 = append_message (message_of message USER) st;
          st2 = st1\<lparr>isGenerating := True\<rparr>;
          st' = (case res of
              Pending \<Rightarrow> st2
            | Rejected \<Rightarrow> finally_block (catch_block st2)
            | BodyNull \<Rightarrow> finally_block st2
            | Body events \<Rightarrow>
                (case read_loop st2 '''' events of
                   (st3, aiMessage, Awaiting) \<Rightarrow> st3
                 | (st3, aiMessage, Thrown) \<Rightarrow> finally_block (catch_block st3)
                 | (st3, aiMessage, Break) \<Rightarrow>
                     (let st4 = (if aiMessage = ''''
                                 then append_message (message_of NO_RESPONSE AI) st3
                                 else append_message (message_of aiMessage AI) st3);
                          st5 = st4\<lparr>currMessage := DEFAULT_MESSAGE\<rparr>
                      in finally_block st5)))
      in (st', [stream_request message]))"

text \<open>A stream that delivers the chunks \<open>cs\<close> in order and then ends.\<close>

definition ended_stream :: "string list \<Rightarrow> read_event list" where
  "ended_stream cs = map Value cs @ [Done]"


section \<open>The atomic hook (\<^verbatim>\<open>POST /chat\<close>, one JSON reply)\<close>

text \<open>
  The object \<^verbatim>\<open>data\<close> that \<^verbatim>\<open>await res.json()\<close> gives, with the properties the
  hooks read. \<open>JsonThrows\<close> stands for the rejection of \<^verbatim>\<open>res.json()\<close> (or of
  \<^verbatim>\<open>JSON.parse\<close>).
\<close>

record chat_data =
  content :: string
  needs_more_info :: bool
  browser_use_plan :: "Plan option"

datatype 'a parsed = JsonThrows | Parsed 'a

text \<open>
  \<^verbatim>\<open>JSON.stringify\<close> of a \<^verbatim>\<open>Message\<close>: its own properties, the enum by its
  string value; a property that is not set is not written.
\<close>

definition Message_json :: "Message \<Rightarrow> json" where
  "Message_json m =
     JObject ([(''text'', JString (msgtext m)),
               (''sender'', JString (Sender_value (sender m)))]
              @ (case needsMoreInfo m of
                   None \<Rightarrow> []
                 | Some b \<Rightarrow> [(''needsMoreInfo'', JBool b)]))"

text \<open>
  The reply object itself is untyped in the source. For a \<^verbatim>\<open>content\<close> that is missing,
  \<^verbatim>\<open>null\<close>, a boolean or a string, \<open>ToString\<close> is the conversion that a template
  literal applies, and \<open>reply_text\<close> is the value that the object appended for the
  reply holds under \<^verbatim>\<open>text\<close> in the atomic hook: \<^verbatim>\<open>data.content\<close> itself when
  \<^verbatim>\<open>needs_more_info\<close> holds, \<^verbatim>\<open>`${data.content}`\<close> otherwise.
\<close>

datatype jsvalue = JsUndefined | JsNull | JsBoolean bool | JsString string

fun ToString :: "jsvalue \<Rightarrow> string" where
  "ToString JsUndefined = ''undefined''"
| "ToString JsNull = ''null''"
| "ToString (JsBoolean b) = (if b then ''true'' else ''false'')"
| "ToString (JsString s) = s"

definition reply_text :: "bool \<Rightarrow> jsvalue \<Rightarrow> jsvalue" where
  "reply_text flag c = (if flag then c else JsString (ToString c))"

text \<open>
  The hooks take the reply with the types that the wire format declares: \<^verbatim>\<open>content\<close>
  is a string. The template literal \<^verbatim>\<open>`${s}`\<close> of a string is that string.
\<close>

definition template :: "string \<Rightarrow> string" where
  "template s = ToString (JsString s)"

definition atomic_request :: "Message list \<Rightarrow> string \<Rightarrow> effect" where
  "atomic_request msgs message =
     Fetch ''/chat'' (JObject [(''message'', JString message),
                               (''history'', JArray (map Message_json msgs))])"

definition sendMessage_atomic ::
  "chatbot \<Rightarrow> string \<Rightarrow> chat_data parsed fetch \<Rightarrow> chatbot \<times> effect list" where
  "sendMessage_atomic st message res =
     (let st1 = append_message (message_of message USER) st;
          st2 = st1\<lparr>isGenerating := True\<rparr>;
          st' = (case res of
              Pending \<Rightarrow> st2
            | Rejected \<Rightarrow> finally_block (catch_block st2)
            | BodyNull \<Rightarrow> finally_block st2
            | Body JsonThrows \<Rightarrow> finally_block (catch_block st2)
            | Body (Parsed data) \<Rightarrow>
                finally_block
                  (if needs_more_info data
                   then append_message (message_of (content data) AI) st2
                   else append_message (message_of (template (content data)) AI) st2))
      in (st', [atomic_request (messages st) message]))"

section \<open>The connection hook (\<^verbatim>\<open>frontend/src/hooks/useWebSocket.ts\<close>)\<close>

text \<open>
  A frame as the hook keeps it in \<^verbatim>\<open>lastMessage\<close>: an object with a \<^verbatim>\<open>type\<close>
  and the properties that the chat hook reads from it.
\<close>

record WebSocketMessage = chat_data +
  mtype :: string
  plan :: "Plan option"
  message :: string

datatype ReadyState = CONNECTING | OPEN | CLOSING | CLOSED

text \<open>
  The state cells of the hook, and the \<^verbatim>\<open>readyState\<close> of the socket that
  \<^verbatim>\<open>socketRef.current\<close> holds (\<open>None\<close> while the reference is \<^verbatim>\<open>null\<close>).
\<close>

record useWebSocket =
  isConnected :: bool
  lastMessage :: "WebSocketMessage option"
  error :: "string option"
  socketRef :: "ReadyState option"

definition useWebSocket_initial :: useWebSocket where
  "useWebSocket_initial =
     \<lparr>isConnected = False, lastMessage = None, error = None, socketRef = None\<rparr>"

text \<open>The connection effect, run once on mount: it creates the socket.\<close>

definition useWebSocket_mount :: "useWebSocket \<Rightarrow> useWebSocket \<times> effect list" where
  "useWebSocket_mount ws = (ws\<lparr>socketRef := Some CONNECTING\<rparr>, [NewWebSocket])"

text \<open>The four handlers installed on the socket.\<close>

datatype socket_event = OnOpen | OnMessage "WebSocketMessage parsed" | OnError | OnClose

fun useWebSocket_handler :: "socket_event \<Rightarrow> useWebSocket \<Rightarrow> useWebSocket \<times> effect list" where
  "useWebSocket_handler OnOpen ws = (ws\<lparr>isConnected := True, error := None\<rparr>, [])"
| "useWebSocket_handler (OnMessage (Parsed data)) ws = (ws\<lparr>lastMessage := Some data\<rparr>, [])"
| "useWebSocket_handler (OnMessage JsonThrows) ws =
     (ws\<lparr>error := Some ''Failed to parse message from server''\<rparr>, [])"
| "useWebSocket_handler OnError ws =
     (ws\<lparr>error := Some ''WebSocket connection error'', isConnected := False\<rparr>, [])"
| "useWebSocket_handler OnClose ws = (ws\<lparr>isConnected := False\<rparr>, [])"

text \<open>The clean-up that the effect returns, run on unmount.\<close>

definition useWebSocket_cleanup :: "useWebSocket \<Rightarrow> effect list" where
  "useWebSocket_cleanup ws = (if socketRef ws = Some OPEN then [SocketClose] else [])"

text \<open>\<^verbatim>\<open>sendMessage\<close> of the connection hook and its two wrappers.\<close>

definition ws_sendMessage :: "json \<Rightarrow> useWebSocket \<Rightarrow> useWebSocket \<times> effect list" where
  "ws_sendMessage frame ws =
     (if socketRef ws = Some OPEN then (ws, [SocketSend frame])
      else (ws\<lparr>error := Some ''WebSocket is not connected''\<rparr>, []))"

definition generateBrowserUseFunctions :: "string \<Rightarrow> useWebSocket \<Rightarrow> useWebSocket \<times> effect list" where
  "generateBrowserUseFunctions actionDescription ws =
     ws_sendMessage (JObject [(''type'', JString ''browser_use''),
                              (''action_description'', JString actionDescription)]) ws"

definition sendChatMessage :: "string \<Rightarrow> json list \<Rightarrow> useWebSocket \<Rightarrow> useWebSocket \<times> effect list" where
  "sendChatMessage msg history ws =
     ws_sendMessage (JObject [(''type'', JString ''chat''),
                              (''message'', JString msg),
                              (''history'', JArray history)]) ws"

text \<open>
  What the browser does to the socket when it delivers an event: \<^verbatim>\<open>readyState\<close> is
  \<^verbatim>\<open>OPEN\<close> from the open event on and \<^verbatim>\<open>CLOSED\<close> from the close event on.
\<close>

fun readyState_after :: "socket_event \<Rightarrow> ReadyState \<Rightarrow> ReadyState" where
  "readyState_after OnOpen r = OPEN"
| "readyState_after OnClose r = CLOSED"
| "readyState_after ev r = r"

definition deliver :: "socket_event \<Rightarrow> useWebSocket \<Rightarrow> useWebSocket \<times> effect list" where
  "deliver ev ws =
     useWebSocket_handler ev (ws\<lparr>socketRef := map_option (readyState_after ev) (socketRef ws)\<rparr>)"

section \<open>The chat hook over the connection (\<^verbatim>\<open>useChatbot\<close> with \<^verbatim>\<open>useWebSocket\<close>)\<close>

text \<open>
  The effect on \<^verbatim>\<open>lastMessage\<close>. The test \<^verbatim>\<open>if (lastMessage.browser_use_plan)\<close> is on
  an object or a missing property, so it holds exactly when the plan is there.
\<close>

definition on_lastMessage :: "WebSocketMessage option \<Rightarrow> ws_chatbot \<Rightarrow> ws_chatbot" where
  "on_lastMessage lm st =
     (case lm of
        None \<Rightarrow> st
      | Some m \<Rightarrow>
          if mtype m = ''chat_response'' then
            (let st1 = append_message (message_of (content m) AI) st;
                 st2 = (case browser_use_plan m of
                          Some p \<Rightarrow> st1\<lparr>browserUsePlan := Some p\<rparr>
                        | None \<Rightarrow> st1)
             in st2\<lparr>isGenerating := False\<rparr>)
          else if mtype m = ''browser_use_plan'' then
            st\<lparr>browserUsePlan := plan m, isGenerating := False\<rparr>
          else if mtype m = ''error'' then
            (append_message (message_of (''Error: '' @ message m) AI) st)\<lparr>isGenerating := False\<rparr>
          else st)"

text \<open>The effect on \<^verbatim>\<open>error\<close>; the empty string is falsy.\<close>

definition on_error :: "string option \<Rightarrow> ws_chatbot \<Rightarrow> ws_chatbot" where
  "on_error err st =
     (case err of
        None \<Rightarrow> st
      | Some e \<Rightarrow>
          if e = '''' then st
          else append_message
                 (message_of (''Connection error: '' @ e @ ''. Falling back to HTTP.'') AI) st)"

text \<open>The history that the hook builds for the socket.\<close>

definition role_pair :: "Message \<Rightarrow> json" where
  "role_pair msg =
     JObject [(''role'', JString (if sender msg = USER then ''user'' else ''assistant'')),
              (''content'', JString (msgtext msg))]"

definition fallback_request :: "Message list \<Rightarrow> string \<Rightarrow> effect" where
  "fallback_request msgs msg =
     Fetch ''/chat/browser-use'' (JObject [(''message'', JString msg),
                                           (''history'', JArray (map Message_json msgs))])"

text \<open>The \<^verbatim>\<open>catch\<close> block of this hook; it has no \<^verbatim>\<open>finally\<close>.\<close>

definition catch_ws :: "ws_chatbot \<Rightarrow> ws_chatbot" where
  "catch_ws st = (append_message (message_of NO_RESPONSE AI) st)\<lparr>isGenerating := False\<rparr>"

text \<open>
  What \<^verbatim>\<open>sendMessage\<close> does once the awaited fallback request has settled with
  \<open>res\<close>, on the state of the hook at that moment (the setters take the value of
  that moment).
\<close>

definition sendMessage_ws_settle :: "chat_data parsed fetch \<Rightarrow> ws_chatbot \<Rightarrow> ws_chatbot" where
  "sendMessage_ws_settle res st2 =
     (case res of
        Pending \<Rightarrow> st2
      | Rejected \<Rightarrow> catch_ws st2
      | BodyNull \<Rightarrow> catch_ws st2
      | Body JsonThrows \<Rightarrow> catch_ws st2
      | Body (Parsed data) \<Rightarrow>
          (let st3 = (if needs_more_info data
                      then append_message (message_of (content data) AI) st2
                      else (let st4 = append_message (message_of (content data) AI) st2
                            in case browser_use_plan data of
                                 Some p \<Rightarrow> st4\<lparr>browserUsePlan := Some p\<rparr>
                               | None \<Rightarrow> st4))
           in st3\<lparr>isGenerating := False\<rparr>))"

definition sendMessage_ws ::
  "ws_chatbot \<Rightarrow> useWebSocket \<Rightarrow> string \<Rightarrow> chat_data parsed fetch
     \<Rightarrow> ws_chatbot \<times> useWebSocket \<times> effect list" where
  "sendMessage_ws st ws msg res =
     (let st1 = append_message (message_of msg USER) st;
          st2 = st1\<lparr>isGenerating := True\<rparr>
      in if isConnected ws then
           (let history = map role_pair (messages st);
                (ws', out) = sendChatMessage msg history ws
            in (st2, ws', out))
         else
           (sendMessage_ws_settle res st2, ws, [fallback_request (messages st) msg]))"

text \<open>
  \<^verbatim>\<open>generateBrowserUse\<close>: the reply of the fallback is the plan itself, stored as it
  comes (\<open>None\<close> for a JSON \<^verbatim>\<open>null\<close>).
\<close>

definition browser_use_request :: "string \<Rightarrow> effect" where
  "browser_use_request actionDescription =
     Fetch ''/api/browser-use'' (JObject [(''action_description'', JString actionDescription)])"

definition generateBrowserUse_settle :: "Plan option parsed fetch \<Rightarrow> ws_chatbot \<Rightarrow> ws_chatbot" where
  "generateBrowserUse_settle res st1 =
     (case res of
        Pending \<Rightarrow> st1
      | Rejected \<Rightarrow> st1\<lparr>isGenerating := False\<rparr>
      | BodyNull \<Rightarrow> st1\<lparr>isGenerating := False\<rparr>
      | Body JsonThrows \<Rightarrow> st1\<lparr>isGenerating := False\<rparr>
      | Body (Parsed data) \<Rightarrow> st1\<lparr>browserUsePlan := data, isGenerating := False\<rparr>)"

definition generateBrowserUse ::
  "ws_chatbot \<Rightarrow> useWebSocket \<Rightarrow> string \<Rightarrow> Plan option parsed fetch
     \<Rightarrow> ws_chatbot \<times> useWebSocket \<times> effect list" where
  "generateBrowserUse st ws actionDescription res =
     (let st1 = st\<lparr>isGenerating := True\<rparr>
      in if isConnected ws then
           (let (ws', out) = generateBrowserUseFunctions actionDescription ws
            in (st1, ws', out))
         else
           (generateBrowserUse_settle res st1, ws, [browser_use_request actionDescription]))"

section \<open>The two hooks together\<close>

text \<open>
  The chat hook and the connection hook live in one component. After an event has
  changed the cells of the connection hook, the component renders and the two
  effects of the chat hook run: the one on \<^verbatim>\<open>lastMessage\<close> when a frame has been
  stored (every parsed frame is a new object), the one on \<^verbatim>\<open>error\<close> when the error
  cell holds another value than before.
\<close>

definition error_effect :: "string option \<Rightarrow> string option \<Rightarrow> ws_chatbot \<Rightarrow> ws_chatbot" where
  "error_effect old new st = (if new \<noteq> old then on_error new st else st)"

fun stores_frame :: "socket_event \<Rightarrow> bool" where
  "stores_frame (OnMessage (Parsed data)) = True"
| "stores_frame _ = False"

fun socket_step ::
  "socket_event \<Rightarrow> ws_chatbot \<times> useWebSocket \<Rightarrow> ws_chatbot \<times> useWebSocket" where
  "socket_step ev (st, ws) =
     (let ws' = fst (deliver ev ws);
          st1 = (if stores_frame ev then on_lastMessage (lastMessage ws') st else st)
      in (error_effect (error ws) (error ws') st1, ws'))"


text \<open>
  A call of \<^verbatim>\<open>sendMessage\<close> or of \<^verbatim>\<open>generateBrowserUse\<close> in the component: the call
  itself, then the effect on \<^verbatim>\<open>error\<close> when the call has changed that cell.
\<close>

fun call_sendMessage ::
  "string \<Rightarrow> chat_data parsed fetch \<Rightarrow> ws_chatbot \<times> useWebSocket
     \<Rightarrow> (ws_chatbot \<times> useWebSocket) \<times> effect list" where
  "call_sendMessage msg res (st, ws) =
     (case sendMessage_ws st ws msg res of
        (st', ws', out) \<Rightarrow> ((error_effect (error ws) (error ws') st', ws'), out))"

fun call_generateBrowserUse ::
  "string \<Rightarrow> Plan option parsed fetch \<Rightarrow> ws_chatbot \<times> useWebSocket
     \<Rightarrow> (ws_chatbot \<times> useWebSocket) \<times> effect list" where
  "call_generateBrowserUse actionDescription res (st, ws) =
     (case generateBrowserUse st ws actionDescription res of
        (st', ws', out) \<Rightarrow> ((error_effect (error ws) (error ws') st', ws'), out))"

text \<open>
  The states that the component can be in: the state after mount, and every state
  that an event of the socket, a call, or the settling of an awaited fallback
  request leads to from such a state.
\<close>

inductive_set reach_ws :: "(ws_chatbot \<times> useWebSocket) set" where
  mounted: "(useChatbot_ws_initial, fst (useWebSocket_mount useWebSocket_initial)) \<in> reach_ws"
| event: "(st, ws) \<in> reach_ws \<Longrightarrow> socket_step ev (st, ws) \<in> reach_ws"
| send: "(st, ws) \<in> reach_ws \<Longrightarrow> fst (call_sendMessage msg res (st, ws)) \<in> reach_ws"
| send_settled: "(st, ws) \<in> reach_ws \<Longrightarrow> (sendMessage_ws_settle res st, ws) \<in> reach_ws"
| generate:
    "(st, ws) \<in> reach_ws \<Longrightarrow> fst (call_generateBrowserUse actionDescription res (st, ws)) \<in> reach_ws"
| generate_settled:
    "(st, ws) \<in> reach_ws \<Longrightarrow> (generateBrowserUse_settle res st, ws) \<in> reach_ws"

section \<open>The chat form (\<^verbatim>\<open>ChatWidgetForm.tsx\<close>, \<^verbatim>\<open>ChatBox.tsx\<close>)\<close>

text \<open>
  \<^verbatim>\<open>formSchema\<close> asks for a text of at least one character. \<^verbatim>\<open>handleSubmit\<close> hands
  the text to \<^verbatim>\<open>onSubmit\<close> when the schema accepts it; \<^verbatim>\<open>form.handleSubmit\<close> runs the
  resolver of the same schema first. The result is the text handed to \<^verbatim>\<open>onSubmit\<close>,
  \<open>None\<close> when nothing is submitted.
\<close>

definition formSchema :: "string \<Rightarrow> bool" where
  "formSchema t = (1 \<le> length t)"

definition handleSubmit :: "string \<Rightarrow> string option" where
  "handleSubmit t = (if formSchema t then Some t else None)"

definition form_handleSubmit :: "string \<Rightarrow> string option" where
  "form_handleSubmit t = (if formSchema t then handleSubmit t else None)"

definition handleEnterPressed :: "bool \<Rightarrow> string \<Rightarrow> string option" where
  "handleEnterPressed isGen t = (if \<not> isGen then form_handleSubmit t else None)"

text \<open>
  The Enter key in a \<^verbatim>\<open>ChatBox\<close> whose \<^verbatim>\<open>onSubmit\<close> is the \<^verbatim>\<open>sendMessage\<close> of a hook
  and whose \<^verbatim>\<open>loading\<close> is its \<^verbatim>\<open>isGenerating\<close>, for each of the three hooks.
\<close>

definition enter_stream ::
  "chatbot \<Rightarrow> string \<Rightarrow> read_event list fetch \<Rightarrow> chatbot \<times> effect list" where
  "enter_stream st t res =
     (case handleEnterPressed (isGenerating st) t of
        None \<Rightarrow> (st, [])
      | Some v \<Rightarrow> sendMessage_stream st v res)"

definition enter_atomic ::
  "chatbot \<Rightarrow> string \<Rightarrow> chat_data parsed fetch \<Rightarrow> chatbot \<times> effect list" where
  "enter_atomic st t res =
     (case handleEnterPressed (isGenerating st) t of
        None \<Rightarrow> (st, [])
      | Some v \<Rightarrow> sendMessage_atomic st v res)"

definition enter_ws ::
  "ws_chatbot \<Rightarrow> useWebSocket \<Rightarrow> string \<Rightarrow> chat_data parsed fetch
     \<Rightarrow> ws_chatbot \<times> useWebSocket \<times> effect list" where
  "enter_ws st ws t res =
     (case handleEnterPressed (isGenerating st) t of
        None \<Rightarrow> (st, ws, [])
      | Some v \<Rightarrow> sendMessage_ws st ws v res)"

section \<open>The test page (\<^verbatim>\<open>websocket_test.html\<close>)\<close>

text \<open>
  The script of the page keeps the socket (\<open>None\<close> for \<^verbatim>\<open>null\<close>), the chat history
  and the text of the status element.
\<close>

record test_page =
  socket :: "ReadyState option"
  chatHistory :: "json list"
  connectionStatus :: string

definition connectWebSocket :: "test_page \<Rightarrow> test_page \<times> effect list" where
  "connectWebSocket pg =
     (pg\<lparr>socket := Some CONNECTING\<rparr>,
      (if socket pg \<noteq> None then [SocketClose] else []) @ [NewWebSocket])"

text \<open>The listeners that \<^verbatim>\<open>connectWebSocket\<close> adds for open, close and error.\<close>

definition page_open :: "test_page \<Rightarrow> test_page \<times> effect list" where
  "page_open pg = (pg\<lparr>connectionStatus := ''WebSocket: Connected''\<rparr>, [])"

definition page_close :: "test_page \<Rightarrow> test_page \<times> effect list" where
  "page_close pg =
     (pg\<lparr>connectionStatus := ''WebSocket: Disconnected''\<rparr>, [SetTimeout ConnectWebSocket 5000])"

definition page_error :: "test_page \<Rightarrow> test_page \<times> effect list" where
  "page_error pg = (pg\<lparr>connectionStatus := ''WebSocket: Error''\<rparr>, [])"

text \<open>A timer that fires runs its callback.\<close>

fun run_callback :: "callback \<Rightarrow> test_page \<Rightarrow> test_page \<times> effect list" where
  "run_callback ConnectWebSocket pg = connectWebSocket pg"

text \<open>The timers that a list of effects sets.\<close>

fun timers :: "effect list \<Rightarrow> (callback \<times> nat) list" where
  "timers [] = []"
| "timers (SetTimeout cb ms # es) = (cb, ms) # timers es"
| "timers (_ # es) = timers es"

section \<open>Round trips\<close>













text \<open>
  The error texts that the connection reports anew: the error cell goes from \<open>old\<close>
  to \<open>new\<close>, and \<open>new\<close> is another value than \<open>old\<close> and a text that is not empty.
  \<open>new_errors\<close> collects them over the events of a list, in order.
\<close>

definition new_error :: "string option \<Rightarrow> string option \<Rightarrow> string list" where
  "new_error old new =
     (case new of None \<Rightarrow> [] | Some e \<Rightarrow> if new \<noteq> old \<and> e \<noteq> '''' then [e] else [])"


text \<open>The state after the read loop has appended the chunks \<open>cs\<close> to the draft, in order.\<close>

definition drafted :: "string list \<Rightarrow> chatbot \<Rightarrow> chatbot" where
  "drafted cs st = fold append_draft cs st"

section \<open>Properties of the read loop and of single round trips\<close>

lemma read_loop_values:
  "read_loop st acc (map Value cs @ rest) = read_loop (drafted cs st) (acc @ concat cs) rest"
  by (induction cs arbitrary: st acc) (simp_all add: drafted_def)

lemma drafted_reset [simp]:
  "(drafted cs st)\<lparr>currMessage := m\<rparr> = st\<lparr>currMessage := m\<rparr>"
  by (induction cs arbitrary: st) (simp_all add: drafted_def append_draft_def)

lemma drafted_messages [simp]: "messages (drafted cs st) = messages st"
  by (induction cs arbitrary: st) (simp_all add: drafted_def append_draft_def)

lemma drafted_isGenerating [simp]: "isGenerating (drafted cs st) = isGenerating st"
  by (induction cs arbitrary: st) (simp_all add: drafted_def append_draft_def)

lemma drafted_text [simp]:
  "msgtext (currMessage (drafted cs st)) = msgtext (currMessage st) @ concat cs"
  by (induction cs arbitrary: st) (simp_all add: drafted_def append_draft_def)

lemma drafted_sender [simp]:
  "sender (currMessage (drafted cs st)) = sender (currMessage st)"
  by (induction cs arbitrary: st) (simp_all add: drafted_def append_draft_def)

lemma append_draft_messages_update:
  "append_draft c (st\<lparr>messages := ms\<rparr>) = (append_draft c st)\<lparr>messages := ms\<rparr>"
  by (simp add: append_draft_def)

lemma append_draft_isGenerating_update:
  "append_draft c (st\<lparr>isGenerating := b\<rparr>) = (append_draft c st)\<lparr>isGenerating := b\<rparr>"
  by (simp add: append_draft_def)

lemma drafted_messages_update [simp]:
  "drafted cs (st\<lparr>messages := ms\<rparr>) = (drafted cs st)\<lparr>messages := ms\<rparr>"
  by (induction cs arbitrary: st) (simp_all add: drafted_def append_draft_messages_update)

lemma drafted_isGenerating_update [simp]:
  "drafted cs (st\<lparr>isGenerating := b\<rparr>) = (drafted cs st)\<lparr>isGenerating := b\<rparr>"
  by (induction cs arbitrary: st) (simp_all add: drafted_def append_draft_isGenerating_update)










lemma on_lastMessage_chat_response:
  "mtype m = ''chat_response'' \<Longrightarrow>
     on_lastMessage (Some m) st =
       st\<lparr>messages := messages st @ [\<lparr>msgtext = content m, sender = AI, needsMoreInfo = None\<rparr>],
          isGenerating := False,
          browserUsePlan := (case browser_use_plan m of
                               None \<Rightarrow> browserUsePlan st
                             | Some p \<Rightarrow> Some p)\<rparr>"
  by (cases "browser_use_plan m")
     (simp_all add: on_lastMessage_def append_message_def message_of_def Let_def)

lemma on_lastMessage_error:
  "mtype m = ''error'' \<Longrightarrow>
     on_lastMessage (Some m) st =
       st\<lparr>messages := messages st @ [message_of (''Error: '' @ message m) AI],
          isGenerating := False\<rparr>"
  by (simp add: on_lastMessage_def append_message_def)

lemma sendMessage_ws_connected:
  "isConnected ws \<Longrightarrow>
     fst (sendMessage_ws st ws m res) =
       st\<lparr>messages := messages st @ [message_of m USER], isGenerating := True\<rparr>"
  by (simp add: sendMessage_ws_def append_message_def Let_def split: prod.split)

lemma sendMessage_ws_fallback_messages:
  "\<not> isConnected ws \<Longrightarrow> res \<noteq> Pending \<Longrightarrow>
     messages (fst (sendMessage_ws st ws m res)) =
       messages st @ [message_of m USER,
          message_of (case res of Body (Parsed d) \<Rightarrow> content d | _ \<Rightarrow> NO_RESPONSE) AI]"
  by (simp add: sendMessage_ws_def sendMessage_ws_settle_def append_message_def catch_ws_def
        Let_def split: fetch.split parsed.split option.split)

lemma sendMessage_ws_fallback_idle:
  "\<not> isConnected ws \<Longrightarrow> res \<noteq> Pending \<Longrightarrow>
     \<not> isGenerating (fst (sendMessage_ws st ws m res))"
  by (simp add: sendMessage_ws_def sendMessage_ws_settle_def append_message_def catch_ws_def
        Let_def split: fetch.split parsed.split option.split)

lemma sendMessage_ws_busy_irrelevant:
  "sendMessage_ws (st\<lparr>isGenerating := b\<rparr>) ws m res
     = sendMessage_ws (st\<lparr>isGenerating := False\<rparr>) ws m res"
  by (simp add: sendMessage_ws_def append_message_def Let_def)

lemma generateBrowserUse_busy_irrelevant:
  "generateBrowserUse (st\<lparr>isGenerating := b\<rparr>) ws a res
     = generateBrowserUse (st\<lparr>isGenerating := False\<rparr>) ws a res"
  by (simp add: generateBrowserUse_def Let_def)

declare socket_step.simps [simp del]
declare call_sendMessage.simps [simp del]
declare call_generateBrowserUse.simps [simp del]

lemma new_error_same [simp]: "new_error e e = []"
  by (simp add: new_error_def split: option.split)


lemma error_effect_isGenerating [simp]:
  "isGenerating (error_effect old new st) = isGenerating st"
  by (cases new) (simp_all add: error_effect_def on_error_def append_message_def)

lemma error_effect_currMessage [simp]:
  "currMessage (error_effect old new st) = currMessage st"
  by (cases new) (simp_all add: error_effect_def on_error_def append_message_def)

lemma on_lastMessage_currMessage [simp]:
  "currMessage (on_lastMessage lm st) = currMessage st"
  by (cases lm)
     (simp_all add: on_lastMessage_def append_message_def Let_def split: option.split)



lemma socket_step_frame:
  "socket_step (OnMessage (Parsed f)) (st, ws) =
     (on_lastMessage (Some f) st, fst (deliver (OnMessage (Parsed f)) ws))"
  by (simp add: socket_step.simps deliver_def error_effect_def Let_def)



lemma socket_step_currMessage [simp]:
  "currMessage (fst (socket_step ev (st, ws))) = currMessage st"
  by (simp add: socket_step.simps Let_def)











lemma sendMessage_ws_currMessage [simp]:
  "currMessage (fst (sendMessage_ws st ws msg res)) = currMessage st"
  by (simp add: sendMessage_ws_def sendMessage_ws_settle_def catch_ws_def append_message_def
        Let_def split: prod.split fetch.split parsed.split option.split)

lemma sendMessage_ws_settle_currMessage [simp]:
  "currMessage (sendMessage_ws_settle res st) = currMessage st"
  by (simp add: sendMessage_ws_settle_def catch_ws_def append_message_def
        Let_def split: fetch.split parsed.split option.split)

lemma generateBrowserUse_currMessage [simp]:
  "currMessage (fst (generateBrowserUse st ws a res)) = currMessage st"
  by (simp add: generateBrowserUse_def generateBrowserUse_settle_def
        Let_def split: prod.split fetch.split parsed.split)

lemma generateBrowserUse_settle_currMessage [simp]:
  "currMessage (generateBrowserUse_settle res st) = currMessage st"
  by (simp add: generateBrowserUse_settle_def split: fetch.split parsed.split)

lemma call_sendMessage_currMessage [simp]:
  "currMessage (fst (fst (call_sendMessage msg res (st, ws)))) = currMessage st"
proof -
  obtain st' ws' out where eq: "sendMessage_ws st ws msg res = (st', ws', out)"
    by (cases "sendMessage_ws st ws msg res")
  with sendMessage_ws_currMessage [of st ws msg res] show ?thesis
    by (simp add: call_sendMessage.simps)
qed

lemma call_generateBrowserUse_currMessage [simp]:
  "currMessage (fst (fst (call_generateBrowserUse a res (st, ws)))) = currMessage st"
proof -
  obtain st' ws' out where eq: "generateBrowserUse st ws a res = (st', ws', out)"
    by (cases "generateBrowserUse st ws a res")
  with generateBrowserUse_currMessage [of st ws a res] show ?thesis
    by (simp add: call_generateBrowserUse.simps)
qed

lemma reach_ws_draft:
  "s \<in> reach_ws \<Longrightarrow> currMessage (fst s) = DEFAULT_MESSAGE"
proof (induction rule: reach_ws.induct)
  case mounted
  show ?case by (simp add: useChatbot_ws_initial_def)
next
  case (event st ws ev)
  then show ?case by simp
next
  case (send st ws msg res)
  then show ?case by simp
next
  case (send_settled st ws res)
  then show ?case by simp
next
  case (generate st ws actionDescription res)
  then show ?case by simp
next
  case (generate_settled st ws res)
  then show ?case by simp
qed

section \<open>The claims\<close>

subsection \<open>Frames and replies\<close>

text \<open>
  Claim C1, as the code has it. In every state that the component can be in, a
  \<^verbatim>\<open>chat_response\<close> frame appends the entry \<^verbatim>\<open>{text: content, sender: AI}\<close> to the log,
  with \<^verbatim>\<open>needsMoreInfo\<close> not set, replaces the plan when the frame carries one, leaves
  the draft cleared and clears the busy flag; this is the whole effect of the
  event that delivers the frame. With an empty log, \<^verbatim>\<open>sendMessage("hi")\<close> of the
  atomic hook answered by \<^verbatim>\<open>{content: "hello", needs_more_info: false}\<close> ends with the
  user entry followed by the AI entry \<^verbatim>\<open>{text: "hello", sender: AI}\<close>, the draft
  cleared and the busy flag cleared.
\<close>

theorem chat_response_dispatch:
  "((st, ws) \<in> reach_ws \<and> mtype m = ''chat_response'' \<longrightarrow>
      on_lastMessage (Some m) st =
        st\<lparr>messages := messages st @ [\<lparr>msgtext = content m, sender = AI, needsMoreInfo = None\<rparr>],
           currMessage := DEFAULT_MESSAGE,
           isGenerating := False,
           browserUsePlan := (case browser_use_plan m of
                                None \<Rightarrow> browserUsePlan st
                              | Some p \<Rightarrow> Some p)\<rparr>
      \<and> fst (socket_step (OnMessage (Parsed m)) (st, ws)) = on_lastMessage (Some m) st)
   \<and> fst (sendMessage_atomic useChatbot_initial ''hi''
        (Body (Parsed \<lparr>content = ''hello'', needs_more_info = False, browser_use_plan = None\<rparr>)))
     = \<lparr>messages = [\<lparr>msgtext = ''hi'', sender = USER, needsMoreInfo = None\<rparr>,
                     \<lparr>msgtext = ''hello'', sender = AI, needsMoreInfo = None\<rparr>],
         currMessage = DEFAULT_MESSAGE,
         isGenerating = False\<rparr>"
proof -
  have frame: "on_lastMessage (Some m) st =
        st\<lparr>messages := messages st @ [\<lparr>msgtext = content m, sender = AI, needsMoreInfo = None\<rparr>],
           currMessage := DEFAULT_MESSAGE,
           isGenerating := False,
           browserUsePlan := (case browser_use_plan m of
                                None \<Rightarrow> browserUsePlan st
                              | Some p \<Rightarrow> Some p)\<rparr>"
    if reach: "(st, ws) \<in> reach_ws" and tag: "mtype m = ''chat_response''"
  proof -
    have draft: "currMessage st = DEFAULT_MESSAGE"
      using reach_ws_draft [OF reach] by simp
    have "st\<lparr>messages := messages st @
               [\<lparr>msgtext = content m, sender = AI, needsMoreInfo = None\<rparr>],
             isGenerating := False,
             browserUsePlan := (case browser_use_plan m of
                                  None \<Rightarrow> browserUsePlan st
                                | Some p \<Rightarrow> Some p)\<rparr>
          = st\<lparr>messages := messages st @
               [\<lparr>msgtext = content m, sender = AI, needsMoreInfo = None\<rparr>],
             currMessage := DEFAULT_MESSAGE,
             isGenerating := False,
             browserUsePlan := (case browser_use_plan m of
                                  None \<Rightarrow> browserUsePlan st
                                | Some p \<Rightarrow> Some p)\<rparr>"
      using draft by (cases st) simp
    then show ?thesis
      by (simp only: on_lastMessage_chat_response [OF tag])
  qed
  have example: "fst (sendMessage_atomic useChatbot_initial ''hi''
        (Body (Parsed \<lparr>content = ''hello'', needs_more_info = False, browser_use_plan = None\<rparr>)))
     = \<lparr>messages = [\<lparr>msgtext = ''hi'', sender = USER, needsMoreInfo = None\<rparr>,
                     \<lparr>msgtext = ''hello'', sender = AI, needsMoreInfo = None\<rparr>],
         currMessage = DEFAULT_MESSAGE,
         isGenerating = False\<rparr>"
    by (simp add: sendMessage_atomic_def useChatbot_initial_def append_message_def
          finally_block_def template_def message_of_def Let_def)
  show ?thesis
    using frame example by (simp add: socket_step_frame)
qed

theorem chat_response_dispatch_witness:
  "(\<lparr>messages = [\<lparr>msgtext = ''hi'', sender = USER, needsMoreInfo = None\<rparr>],
     currMessage = DEFAULT_MESSAGE, isGenerating = True, browserUsePlan = None\<rparr>,
    \<lparr>isConnected = True, lastMessage = None, error = None, socketRef = Some OPEN\<rparr>) \<in> reach_ws
   \<and> on_lastMessage
       (Some \<lparr>content = ''hello'', needs_more_info = True, browser_use_plan = None,
              mtype = ''chat_response'', plan = None, message = ''''\<rparr>)
       \<lparr>messages = [\<lparr>msgtext = ''hi'', sender = USER, needsMoreInfo = None\<rparr>],
         currMessage = DEFAULT_MESSAGE, isGenerating = True, browserUsePlan = None\<rparr>
     = \<lparr>messages = [\<lparr>msgtext = ''hi'', sender = USER, needsMoreInfo = None\<rparr>,
                     \<lparr>msgtext = ''hello'', sender = AI, needsMoreInfo = None\<rparr>],
         currMessage = DEFAULT_MESSAGE, isGenerating = False, browserUsePlan = None\<rparr>"
proof -
  let ?opened = "(useChatbot_ws_initial,
      \<lparr>isConnected = True, lastMessage = None, error = None, socketRef = Some OPEN\<rparr>)"
  let ?st = "\<lparr>messages = [\<lparr>msgtext = ''hi'', sender = USER, needsMoreInfo = None\<rparr>],
      currMessage = DEFAULT_MESSAGE, isGenerating = True, browserUsePlan = None\<rparr>"
  let ?ws = "\<lparr>isConnected = True, lastMessage = None, error = None, socketRef = Some OPEN\<rparr>"
  let ?m = "\<lparr>content = ''hello'', needs_more_info = True, browser_use_plan = None,
      mtype = ''chat_response'', plan = None, message = ''''\<rparr>"
  have "socket_step OnOpen (useChatbot_ws_initial, fst (useWebSocket_mount useWebSocket_initial))
          = ?opened"
    by (simp add: socket_step.simps deliver_def useWebSocket_mount_def useWebSocket_initial_def
          error_effect_def Let_def)
  then have opened: "?opened \<in> reach_ws"
    using reach_ws.event [OF reach_ws.mounted, of OnOpen] by simp
  have "fst (call_sendMessage ''hi'' Pending ?opened) = (?st, ?ws)"
    by (simp add: call_sendMessage.simps sendMessage_ws_def sendChatMessage_def
          ws_sendMessage_def useChatbot_ws_initial_def append_message_def message_of_def
          error_effect_def Let_def)
  then have reach: "(?st, ?ws) \<in> reach_ws"
    using reach_ws.send [OF opened, of "''hi''" Pending] by simp
  have tag: "mtype ?m = ''chat_response''"
    by simp
  show ?thesis
    using reach chat_response_dispatch [where st = ?st and ws = ?ws and m = ?m]
    by simp
qed

text \<open>
  The claim as it is written fails on its own example: the AI entry does not carry
  \<^verbatim>\<open>needsMoreInfo: false\<close>, neither after the atomic reply nor after the frame.
\<close>

theorem chat_response_flag_not_carried:
  "messages (fst (sendMessage_atomic useChatbot_initial ''hi''
       (Body (Parsed \<lparr>content = ''hello'', needs_more_info = False, browser_use_plan = None\<rparr>))))
     \<noteq> [\<lparr>msgtext = ''hi'', sender = USER, needsMoreInfo = None\<rparr>,
         \<lparr>msgtext = ''hello'', sender = AI, needsMoreInfo = Some False\<rparr>]
   \<and> messages (on_lastMessage
       (Some \<lparr>content = ''hello'', needs_more_info = False, browser_use_plan = None,
              mtype = ''chat_response'', plan = None, message = ''''\<rparr>)
       useChatbot_ws_initial)
     \<noteq> [\<lparr>msgtext = ''hello'', sender = AI, needsMoreInfo = Some False\<rparr>]"
  by (simp add: sendMessage_atomic_def on_lastMessage_def useChatbot_initial_def
        useChatbot_ws_initial_def append_message_def finally_block_def template_def
        message_of_def Let_def)

text \<open>
  Claim C8. A \<^verbatim>\<open>chat_response\<close> frame without \<^verbatim>\<open>browser_use_plan\<close> leaves the plan of
  the session as it is; a \<^verbatim>\<open>chat_response\<close> frame that carries a plan makes that plan
  the plan of the session, whatever the plan was before. A stand-alone
  \<^verbatim>\<open>browser_use_plan\<close> frame stores its \<^verbatim>\<open>plan\<close> as the plan of the session, whatever
  the plan was before, leaves the log and the draft as they are and clears the
  busy flag. A frame of any other type leaves the plan as it is. For both kinds of
  frames with a plan, the log, the draft and the busy flag after the frame depend
  neither on the plan of the frame nor on the plan of the session.
\<close>

theorem chat_response_plan:
  "(mtype m = ''chat_response'' \<longrightarrow>
       browserUsePlan (on_lastMessage (Some (m\<lparr>browser_use_plan := None\<rparr>)) st) = browserUsePlan st
     \<and> browserUsePlan (on_lastMessage (Some (m\<lparr>browser_use_plan := Some p\<rparr>)) st) = Some p
     \<and> messages (on_lastMessage (Some (m\<lparr>browser_use_plan := q\<rparr>)) (st\<lparr>browserUsePlan := r\<rparr>))
         = messages (on_lastMessage (Some m) st)
     \<and> currMessage (on_lastMessage (Some (m\<lparr>browser_use_plan := q\<rparr>)) (st\<lparr>browserUsePlan := r\<rparr>))
         = currMessage (on_lastMessage (Some m) st)
     \<and> isGenerating (on_lastMessage (Some (m\<lparr>browser_use_plan := q\<rparr>)) (st\<lparr>browserUsePlan := r\<rparr>))
         = isGenerating (on_lastMessage (Some m) st))
   \<and> (mtype m = ''browser_use_plan'' \<longrightarrow>
       on_lastMessage (Some m) st = st\<lparr>isGenerating := False, browserUsePlan := plan m\<rparr>
     \<and> browserUsePlan (on_lastMessage (Some (m\<lparr>plan := Some p\<rparr>)) st) = Some p
     \<and> messages (on_lastMessage (Some (m\<lparr>plan := q\<rparr>)) (st\<lparr>browserUsePlan := r\<rparr>)) = messages st
     \<and> currMessage (on_lastMessage (Some (m\<lparr>plan := q\<rparr>)) (st\<lparr>browserUsePlan := r\<rparr>)) = currMessage st
     \<and> isGenerating (on_lastMessage (Some (m\<lparr>plan := q\<rparr>)) (st\<lparr>browserUsePlan := r\<rparr>)) = False)
   \<and> (mtype m \<noteq> ''chat_response'' \<and> mtype m \<noteq> ''browser_use_plan'' \<longrightarrow>
       browserUsePlan (on_lastMessage (Some m) st) = browserUsePlan st)"
proof -
  have chat: "mtype m = ''chat_response'' \<longrightarrow>
       browserUsePlan (on_lastMessage (Some (m\<lparr>browser_use_plan := None\<rparr>)) st) = browserUsePlan st
     \<and> browserUsePlan (on_lastMessage (Some (m\<lparr>browser_use_plan := Some p\<rparr>)) st) = Some p
     \<and> messages (on_lastMessage (Some (m\<lparr>browser_use_plan := q\<rparr>)) (st\<lparr>browserUsePlan := r\<rparr>))
         = messages (on_lastMessage (Some m) st)
     \<and> currMessage (on_lastMessage (Some (m\<lparr>browser_use_plan := q\<rparr>)) (st\<lparr>browserUsePlan := r\<rparr>))
         = currMessage (on_lastMessage (Some m) st)
     \<and> isGenerating (on_lastMessage (Some (m\<lparr>browser_use_plan := q\<rparr>)) (st\<lparr>browserUsePlan := r\<rparr>))
         = isGenerating (on_lastMessage (Some m) st)"
    by (simp add: on_lastMessage_chat_response)
  have alone: "mtype m = ''browser_use_plan'' \<longrightarrow>
       on_lastMessage (Some m) st = st\<lparr>isGenerating := False, browserUsePlan := plan m\<rparr>
     \<and> browserUsePlan (on_lastMessage (Some (m\<lparr>plan := Some p\<rparr>)) st) = Some p
     \<and> messages (on_lastMessage (Some (m\<lparr>plan := q\<rparr>)) (st\<lparr>browserUsePlan := r\<rparr>)) = messages st
     \<and> currMessage (on_lastMessage (Some (m\<lparr>plan := q\<rparr>)) (st\<lparr>browserUsePlan := r\<rparr>)) = currMessage st
     \<and> isGenerating (on_lastMessage (Some (m\<lparr>plan := q\<rparr>)) (st\<lparr>browserUsePlan := r\<rparr>)) = False"
    by (simp add: on_lastMessage_def)
  have other: "mtype m \<noteq> ''chat_response'' \<and> mtype m \<noteq> ''browser_use_plan'' \<longrightarrow>
       browserUsePlan (on_lastMessage (Some m) st) = browserUsePlan st"
    by (simp add: on_lastMessage_def append_message_def)
  show ?thesis
    using chat alone other by blast
qed

theorem chat_response_plan_witness:
  "browserUsePlan (on_lastMessage
       (Some \<lparr>content = ''ok'', needs_more_info = False, browser_use_plan = None,
              mtype = ''chat_response'', plan = None, message = ''''\<rparr>)
       (useChatbot_ws_initial\<lparr>browserUsePlan :=
          Some \<lparr>plan_functions = [], explanation = Some ''old'', action_description = None\<rparr>\<rparr>))
     = Some \<lparr>plan_functions = [], explanation = Some ''old'', action_description = None\<rparr>
   \<and> browserUsePlan (on_lastMessage
       (Some \<lparr>content = ''ok'', needs_more_info = False,
              browser_use_plan =
                Some \<lparr>plan_functions = [\<lparr>name = ''navigate'', args = [], description = None\<rparr>],
                      explanation = None, action_description = None\<rparr>,
              mtype = ''chat_response'', plan = None, message = ''''\<rparr>)
       (useChatbot_ws_initial\<lparr>browserUsePlan :=
          Some \<lparr>plan_functions = [], explanation = Some ''old'', action_description = None\<rparr>\<rparr>))
     = Some \<lparr>plan_functions = [\<lparr>name = ''navigate'', args = [], description = None\<rparr>],
             explanation = None, action_description = None\<rparr>
   \<and> on_lastMessage
       (Some \<lparr>content = '''', needs_more_info = False, browser_use_plan = None,
              mtype = ''browser_use_plan'',
              plan = Some \<lparr>plan_functions = [\<lparr>name = ''navigate'', args = [], description = None\<rparr>],
                           explanation = None, action_description = None\<rparr>,
              message = ''''\<rparr>)
       (useChatbot_ws_initial\<lparr>isGenerating := True, browserUsePlan :=
          Some \<lparr>plan_functions = [], explanation = Some ''old'', action_description = None\<rparr>\<rparr>)
     = useChatbot_ws_initial\<lparr>browserUsePlan :=
          Some \<lparr>plan_functions = [\<lparr>name = ''navigate'', args = [], description = None\<rparr>],
                explanation = None, action_description = None\<rparr>\<rparr>
   \<and> browserUsePlan (on_lastMessage
       (Some \<lparr>content = '''', needs_more_info = False, browser_use_plan = None,
              mtype = ''error'', plan = None, message = ''boom''\<rparr>)
       (useChatbot_ws_initial\<lparr>browserUsePlan :=
          Some \<lparr>plan_functions = [], explanation = Some ''old'', action_description = None\<rparr>\<rparr>))
     = Some \<lparr>plan_functions = [], explanation = Some ''old'', action_description = None\<rparr>"
proof -
  let ?old = "\<lparr>plan_functions = [], explanation = Some ''old'', action_description = None\<rparr>"
  let ?new = "\<lparr>plan_functions = [\<lparr>name = ''navigate'', args = [], description = None\<rparr>],
               explanation = None, action_description = None\<rparr>"
  let ?chat = "\<lparr>content = ''ok'', needs_more_info = False, browser_use_plan = None,
                mtype = ''chat_response'', plan = None, message = ''''\<rparr>"
  let ?alone = "\<lparr>content = '''', needs_more_info = False, browser_use_plan = None,
                 mtype = ''browser_use_plan'', plan = Some ?new, message = ''''\<rparr>"
  let ?err = "\<lparr>content = '''', needs_more_info = False, browser_use_plan = None,
               mtype = ''error'', plan = None, message = ''boom''\<rparr>"
  show ?thesis
    using chat_response_plan
            [where m = ?chat and st = "useChatbot_ws_initial\<lparr>browserUsePlan := Some ?old\<rparr>"
               and p = ?new]
          chat_response_plan
            [where m = ?alone
               and st = "useChatbot_ws_initial\<lparr>isGenerating := True, browserUsePlan := Some ?old\<rparr>"]
          chat_response_plan
            [where m = ?err and st = "useChatbot_ws_initial\<lparr>browserUsePlan := Some ?old\<rparr>"]
    by (simp add: useChatbot_ws_initial_def)
qed

text \<open>
  Claim C10, as the code has it. For a reply whose \<^verbatim>\<open>content\<close> is a string, the atomic
  hook does not depend on the \<^verbatim>\<open>needs_more_info\<close> flag: two replies that differ in the
  flag only give the same state (log, draft and busy flag) and the same request,
  the entry appended for the reply holds the content under \<^verbatim>\<open>text\<close> whatever the flag
  is, and it carries no \<^verbatim>\<open>needsMoreInfo\<close>. The fallback of the chat hook over the
  connection gives the same log, draft and busy flag for both replies as well, and
  its entry carries no \<^verbatim>\<open>needsMoreInfo\<close> either; there the flag decides about the
  plan: the plan of the reply becomes the plan of the session only when the flag
  is false.
\<close>

theorem needs_more_info_ignored:
  "sendMessage_atomic st m (Body (Parsed (d\<lparr>needs_more_info := b\<rparr>)))
     = sendMessage_atomic st m (Body (Parsed d))
   \<and> fst (sendMessage_atomic st m (Body (Parsed d)))
     = st\<lparr>messages := messages st @ [\<lparr>msgtext = m, sender = USER, needsMoreInfo = None\<rparr>,
                                       \<lparr>msgtext = content d, sender = AI, needsMoreInfo = None\<rparr>],
          isGenerating := False\<rparr>
   \<and> reply_text b (JsString (content d)) = JsString (content d)
   \<and> (\<not> isConnected ws \<longrightarrow>
        fst (sendMessage_ws st' ws m (Body (Parsed d)))
        = st'\<lparr>messages := messages st' @ [\<lparr>msgtext = m, sender = USER, needsMoreInfo = None\<rparr>,
                                           \<lparr>msgtext = content d, sender = AI, needsMoreInfo = None\<rparr>],
              isGenerating := False,
              browserUsePlan := (if needs_more_info d then browserUsePlan st'
                                 else case browser_use_plan d of
                                        None \<Rightarrow> browserUsePlan st'
                                      | Some p \<Rightarrow> Some p)\<rparr>)
   \<and> messages (fst (sendMessage_ws st' ws m (Body (Parsed (d\<lparr>needs_more_info := b\<rparr>)))))
     = messages (fst (sendMessage_ws st' ws m (Body (Parsed d))))
   \<and> currMessage (fst (sendMessage_ws st' ws m (Body (Parsed (d\<lparr>needs_more_info := b\<rparr>)))))
     = currMessage (fst (sendMessage_ws st' ws m (Body (Parsed d))))
   \<and> isGenerating (fst (sendMessage_ws st' ws m (Body (Parsed (d\<lparr>needs_more_info := b\<rparr>)))))
     = isGenerating (fst (sendMessage_ws st' ws m (Body (Parsed d))))"
  by (simp add: sendMessage_atomic_def sendMessage_ws_def sendMessage_ws_settle_def
        append_message_def finally_block_def template_def reply_text_def message_of_def
        Let_def split: prod.split option.split)

theorem needs_more_info_ignored_witness:
  "sendMessage_atomic useChatbot_initial ''hi''
     (Body (Parsed \<lparr>content = ''hello'', needs_more_info = True, browser_use_plan = None\<rparr>))
   = sendMessage_atomic useChatbot_initial ''hi''
     (Body (Parsed \<lparr>content = ''hello'', needs_more_info = False, browser_use_plan = None\<rparr>))
   \<and> fst (sendMessage_ws useChatbot_ws_initial useWebSocket_initial ''hi''
        (Body (Parsed \<lparr>content = ''hello'', needs_more_info = False, browser_use_plan = None\<rparr>)))
     = \<lparr>messages = [\<lparr>msgtext = ''hi'', sender = USER, needsMoreInfo = None\<rparr>,
                     \<lparr>msgtext = ''hello'', sender = AI, needsMoreInfo = None\<rparr>],
         currMessage = DEFAULT_MESSAGE, isGenerating = False, browserUsePlan = None\<rparr>"
  using needs_more_info_ignored [where st = useChatbot_initial and m = "''hi''" and b = True
          and d = "\<lparr>content = ''hello'', needs_more_info = False, browser_use_plan = None\<rparr>"
          and st' = useChatbot_ws_initial and ws = useWebSocket_initial]
  by (simp add: useChatbot_ws_initial_def useWebSocket_initial_def)

text \<open>
  The claim as it is written fails. In the fallback of the chat hook over the
  connection, two replies that differ in the flag only leave different plans. In
  the atomic hook, a reply without \<^verbatim>\<open>content\<close> leaves \<^verbatim>\<open>undefined\<close> under \<^verbatim>\<open>text\<close> when
  the flag is true and the string \<^verbatim>\<open>"undefined"\<close> when it is false.
\<close>

theorem flag_decides_plan:
  "browserUsePlan (fst (sendMessage_ws useChatbot_ws_initial useWebSocket_initial ''hi''
       (Body (Parsed \<lparr>content = ''ok'', needs_more_info = True,
          browser_use_plan = Some \<lparr>plan_functions = [], explanation = None,
                                     action_description = None\<rparr>\<rparr>))))
     = None
   \<and> browserUsePlan (fst (sendMessage_ws useChatbot_ws_initial useWebSocket_initial ''hi''
       (Body (Parsed \<lparr>content = ''ok'', needs_more_info = False,
          browser_use_plan = Some \<lparr>plan_functions = [], explanation = None,
                                     action_description = None\<rparr>\<rparr>))))
     = Some \<lparr>plan_functions = [], explanation = None, action_description = None\<rparr>
   \<and> reply_text True JsUndefined = JsUndefined
   \<and> reply_text False JsUndefined = JsString ''undefined''"
  by (simp add: sendMessage_ws_def sendMessage_ws_settle_def useChatbot_ws_initial_def
        useWebSocket_initial_def append_message_def reply_text_def Let_def)

subsection \<open>The busy flag\<close>

text \<open>
  Claim C2, as the code has it. The busy flag is tested by the chat form: while it
  is set, the Enter handler submits nothing, so the state of the hook is unchanged
  and nothing is sent. The \<^verbatim>\<open>sendMessage\<close> and \<^verbatim>\<open>generateBrowserUse\<close> of the hooks do
  not test the flag: called while busy they do what they do when idle.
\<close>

theorem busy_guard_in_form:
  "(isGenerating st \<longrightarrow>
      enter_stream st t res = (st, []) \<and> enter_atomic st t res' = (st, []))
   \<and> (isGenerating st' \<longrightarrow> enter_ws st' ws t res' = (st', ws, []))
   \<and> sendMessage_stream (st\<lparr>isGenerating := b\<rparr>) m Pending
       = (st\<lparr>messages := messages st @ [message_of m USER], isGenerating := True\<rparr>,
          [stream_request m])
   \<and> sendMessage_atomic (st\<lparr>isGenerating := b\<rparr>) m Pending
       = (st\<lparr>messages := messages st @ [message_of m USER], isGenerating := True\<rparr>,
          [atomic_request (messages st) m])
   \<and> sendMessage_ws (st'\<lparr>isGenerating := b\<rparr>) ws m res'
       = sendMessage_ws (st'\<lparr>isGenerating := False\<rparr>) ws m res'
   \<and> generateBrowserUse (st'\<lparr>isGenerating := b\<rparr>) ws m res''
       = generateBrowserUse (st'\<lparr>isGenerating := False\<rparr>) ws m res''"
  using sendMessage_ws_busy_irrelevant [where st = st' and b = b and ws = ws and m = m and res = res']
        generateBrowserUse_busy_irrelevant [where st = st' and b = b and ws = ws and a = m and res = res'']
  by (simp add: enter_stream_def enter_atomic_def enter_ws_def handleEnterPressed_def
        sendMessage_stream_def sendMessage_atomic_def append_message_def Let_def)

theorem busy_guard_in_form_witness:
  "enter_stream (useChatbot_initial\<lparr>isGenerating := True\<rparr>) ''again'' Pending
     = (useChatbot_initial\<lparr>isGenerating := True\<rparr>, [])
   \<and> enter_ws (useChatbot_ws_initial\<lparr>isGenerating := True\<rparr>) useWebSocket_initial ''again'' Pending
     = (useChatbot_ws_initial\<lparr>isGenerating := True\<rparr>, useWebSocket_initial, [])"
  using busy_guard_in_form
    [where st = "useChatbot_initial\<lparr>isGenerating := True\<rparr>"
       and st' = "useChatbot_ws_initial\<lparr>isGenerating := True\<rparr>"
       and ws = useWebSocket_initial and t = "''again''" and res = Pending and res' = Pending]
  by simp

text \<open>
  The claim as it is written fails: a call of \<^verbatim>\<open>sendMessage\<close> made while busy
  appends the user entry and sends its request.
\<close>

theorem send_while_busy_not_rejected:
  "sendMessage_stream (useChatbot_initial\<lparr>isGenerating := True\<rparr>) ''again'' Pending
     = (\<lparr>messages = [\<lparr>msgtext = ''again'', sender = USER, needsMoreInfo = None\<rparr>],
         currMessage = DEFAULT_MESSAGE, isGenerating = True\<rparr>,
        [Fetch '''' (JObject [(''query'', JString ''again'')])])
   \<and> messages (fst (sendMessage_stream (useChatbot_initial\<lparr>isGenerating := True\<rparr>) ''again'' Pending))
     \<noteq> messages (useChatbot_initial\<lparr>isGenerating := True\<rparr>)
   \<and> snd (sendMessage_stream (useChatbot_initial\<lparr>isGenerating := True\<rparr>) ''again'' Pending) \<noteq> []"
  by (simp add: sendMessage_stream_def useChatbot_initial_def append_message_def
        message_of_def stream_request_def Let_def)

subsection \<open>The draft and the stream\<close>

text \<open>
  Claim C3 at a stream that fails after its first chunk: the round trip ends in
  the \<^verbatim>\<open>catch\<close> block, which appends the error entry, and in the \<^verbatim>\<open>finally\<close> block,
  which clears the busy flag; the draft keeps the chunk.
\<close>

theorem draft_kept_after_read_error:
  "fst (sendMessage_stream useChatbot_initial ''hi'' (Body [Value ''Hel'', ReadError])) =
     \<lparr>messages = [\<lparr>msgtext = ''hi'', sender = USER, needsMoreInfo = None\<rparr>,
                  \<lparr>msgtext = ''Error: No response from server'', sender = AI,
                    needsMoreInfo = None\<rparr>],
      currMessage = \<lparr>msgtext = ''Hel'', sender = AI, needsMoreInfo = None\<rparr>,
      isGenerating = False\<rparr>"
  by (simp add: sendMessage_stream_def useChatbot_initial_def DEFAULT_MESSAGE_def
        append_message_def append_draft_def catch_block_def finally_block_def
        message_of_def NO_RESPONSE_def Let_def)

text \<open>
  Claim C9. In the streaming hook, a stream that ends with an empty accumulator
  leaves the synthetic error entry in the log; a stream that ends with text leaves
  that text as the AI entry. Either way the draft is reset and the busy flag is
  cleared.
\<close>

theorem end_of_stream:
  "fst (sendMessage_stream st m (Body (ended_stream cs))) =
     st\<lparr>messages := messages st @
            [message_of m USER,
             message_of (if concat cs = '''' then NO_RESPONSE else concat cs) AI],
        currMessage := DEFAULT_MESSAGE,
        isGenerating := False\<rparr>"
proof -
  let ?st2 = "st\<lparr>messages := messages st @ [message_of m USER], isGenerating := True\<rparr>"
  have loop: "read_loop ?st2 [] (ended_stream cs) = (drafted cs ?st2, concat cs, Break)"
    by (simp add: ended_stream_def read_loop_values)
  have "fst (sendMessage_stream st m (Body (ended_stream cs))) =
          (if concat cs = []
           then append_message (message_of NO_RESPONSE AI) (drafted cs ?st2)
           else append_message (message_of (concat cs) AI) (drafted cs ?st2))
          \<lparr>currMessage := DEFAULT_MESSAGE, isGenerating := False\<rparr>"
    by (simp add: sendMessage_stream_def append_message_def finally_block_def Let_def loop)
  then show ?thesis
    by (simp add: append_message_def)
qed

theorem end_of_stream_witness:
  "fst (sendMessage_stream useChatbot_initial ''hi'' (Body [Done])) =
     \<lparr>messages = [\<lparr>msgtext = ''hi'', sender = USER, needsMoreInfo = None\<rparr>,
                  \<lparr>msgtext = ''Error: No response from server'', sender = AI, needsMoreInfo = None\<rparr>],
      currMessage = \<lparr>msgtext = '''', sender = AI, needsMoreInfo = None\<rparr>,
      isGenerating = False\<rparr>
   \<and> fst (sendMessage_stream useChatbot_initial ''hi'' (Body [Value ''Hel'', Value ''lo'', Done])) =
     \<lparr>messages = [\<lparr>msgtext = ''hi'', sender = USER, needsMoreInfo = None\<rparr>,
                  \<lparr>msgtext = ''Hello'', sender = AI, needsMoreInfo = None\<rparr>],
      currMessage = \<lparr>msgtext = '''', sender = AI, needsMoreInfo = None\<rparr>,
      isGenerating = False\<rparr>"
  using end_of_stream [of useChatbot_initial "''hi''" "[]"]
        end_of_stream [of useChatbot_initial "''hi''" "[''Hel'', ''lo'']"]
  by (simp add: ended_stream_def useChatbot_initial_def message_of_def NO_RESPONSE_def
        DEFAULT_MESSAGE_def)

subsection \<open>Round trips and failures\<close>




text \<open>
  Claim C5 at two failures. A response without a body makes \<^verbatim>\<open>sendMessage\<close> of the
  streaming hook and of the atomic hook return early: the log holds the user
  entry and no AI entry. A rejected fallback request of \<^verbatim>\<open>generateBrowserUse\<close>
  leaves the log as it was.
\<close>

theorem failure_without_error_entry:
  "fst (sendMessage_stream useChatbot_initial ''hi'' BodyNull) =
     \<lparr>messages = [\<lparr>msgtext = ''hi'', sender = USER, needsMoreInfo = None\<rparr>],
      currMessage = DEFAULT_MESSAGE, isGenerating = False\<rparr>
   \<and> fst (sendMessage_atomic useChatbot_initial ''hi'' BodyNull) =
     \<lparr>messages = [\<lparr>msgtext = ''hi'', sender = USER, needsMoreInfo = None\<rparr>],
      currMessage = DEFAULT_MESSAGE, isGenerating = False\<rparr>
   \<and> fst (generateBrowserUse useChatbot_ws_initial useWebSocket_initial ''open the page'' Rejected) =
     useChatbot_ws_initial"
  by (simp add: sendMessage_stream_def sendMessage_atomic_def generateBrowserUse_def generateBrowserUse_settle_def
        useChatbot_initial_def useChatbot_ws_initial_def useWebSocket_initial_def
        append_message_def finally_block_def message_of_def Let_def)

subsection \<open>Reconnection\<close>

text \<open>
  Claim C6, as the code has it. In the connection hook no handler of the socket
  sets a timer or sends anything: the close event only clears \<^verbatim>\<open>isConnected\<close>, and
  the clean-up on unmount closes the socket when it is open. In the test page
  every close event, in whatever state of the page, sets exactly one timer, of
  5000 milliseconds, whose callback connects again; the error event sets none.
\<close>

theorem reconnect_policy:
  "snd (useWebSocket_handler ev ws) = []
   \<and> useWebSocket_handler OnClose ws = (ws\<lparr>isConnected := False\<rparr>, [])
   \<and> timers (useWebSocket_cleanup ws) = []
   \<and> useWebSocket_cleanup ws = (if socketRef ws = Some OPEN then [SocketClose] else [])
   \<and> timers (snd (page_close pg)) = [(ConnectWebSocket, 5000)]
   \<and> timers (snd (page_error pg)) = []
   \<and> NewWebSocket \<in> set (snd (run_callback ConnectWebSocket (fst (page_close pg))))"
proof -
  have "snd (useWebSocket_handler ev ws) = []"
    by (cases "(ev, ws)" rule: useWebSocket_handler.cases) simp_all
  then show ?thesis
    by (simp add: useWebSocket_cleanup_def page_close_def page_error_def connectWebSocket_def)
qed

theorem reconnect_policy_witness:
  "useWebSocket_cleanup (useWebSocket_initial\<lparr>isConnected := True, socketRef := Some OPEN\<rparr>)
     = [SocketClose]
   \<and> timers (snd (page_close \<lparr>socket = Some CLOSED, chatHistory = [],
                               connectionStatus = ''WebSocket: Connected''\<rparr>))
     = [(ConnectWebSocket, 5000)]"
  using reconnect_policy
    [where ws = "useWebSocket_initial\<lparr>isConnected := True, socketRef := Some OPEN\<rparr>"
       and pg = "\<lparr>socket = Some CLOSED, chatHistory = [],
                   connectionStatus = ''WebSocket: Connected''\<rparr>"]
  by simp

text \<open>
  The claim as it is written fails on the connection hook: when the open socket
  closes, no reconnect is scheduled.
\<close>

theorem hook_close_schedules_nothing:
  "deliver OnClose (useWebSocket_initial\<lparr>isConnected := True, socketRef := Some OPEN\<rparr>)
     = (useWebSocket_initial\<lparr>isConnected := False, socketRef := Some CLOSED\<rparr>, [])
   \<and> length (timers (snd (deliver OnClose
        (useWebSocket_initial\<lparr>isConnected := True, socketRef := Some OPEN\<rparr>)))) \<noteq> 1"
  by (simp add: deliver_def useWebSocket_initial_def)

subsection \<open>The history on the wire\<close>

text \<open>
  Claim C7 at a log of one user entry and one AI entry. Over the socket the
  history is the log as role and content pairs; the fallback request of the same
  call carries the entries themselves, with the property \<^verbatim>\<open>sender\<close> and the enum
  values \<^verbatim>\<open>user\<close> and \<^verbatim>\<open>ai\<close>.
\<close>

theorem fallback_history_unmapped:
  "snd (snd (sendMessage_ws
      (useChatbot_ws_initial\<lparr>messages := [message_of ''hi'' USER, message_of ''hello'' AI]\<rparr>)
      (useWebSocket_initial\<lparr>isConnected := True, socketRef := Some OPEN\<rparr>) ''more'' Pending))
     = [SocketSend (JObject [(''type'', JString ''chat''), (''message'', JString ''more''),
          (''history'', JArray
             [JObject [(''role'', JString ''user''), (''content'', JString ''hi'')],
              JObject [(''role'', JString ''assistant''), (''content'', JString ''hello'')]])])]
   \<and> snd (snd (sendMessage_ws
      (useChatbot_ws_initial\<lparr>messages := [message_of ''hi'' USER, message_of ''hello'' AI]\<rparr>)
      useWebSocket_initial ''more'' Pending))
     = [Fetch ''/chat/browser-use'' (JObject [(''message'', JString ''more''),
          (''history'', JArray
             [JObject [(''text'', JString ''hi''), (''sender'', JString ''user'')],
              JObject [(''text'', JString ''hello''), (''sender'', JString ''ai'')]])])]
   \<and> snd (sendMessage_atomic
      (useChatbot_initial\<lparr>messages := [message_of ''hi'' USER, message_of ''hello'' AI]\<rparr>)
      ''more'' Pending)
     = [Fetch ''/chat'' (JObject [(''message'', JString ''more''),
          (''history'', JArray
             [JObject [(''text'', JString ''hi''), (''sender'', JString ''user'')],
              JObject [(''text'', JString ''hello''), (''sender'', JString ''ai'')]])])]"
  by (simp add: sendMessage_ws_def sendMessage_ws_settle_def sendMessage_atomic_def sendChatMessage_def ws_sendMessage_def
        fallback_request_def atomic_request_def role_pair_def Message_json_def
        useChatbot_initial_def useChatbot_ws_initial_def useWebSocket_initial_def
        message_of_def Let_def)

end
